theory Spec2Isabelle
  imports Main
begin

section \<open>Python values used by the service\<close>

text \<open>
  Exceptions that the modelled code raises, catches or lets escape. A call that can
  raise returns the exception as a value.
\<close>

datatype exn =
    ValueError
  | AttributeError
  | KeyError
  | SignatureVerificationError
  | StripeError
  | SQLAlchemyError

text \<open>
  A Python \<open>str\<close> that the code only compares or uses as a key is a \<open>string\<close>. A
  \<open>str\<close> that reaches \<open>int()\<close> is a list of code points, since \<open>int()\<close> looks at
  the class of each character.
\<close>

type_synonym pystr = "nat list"

definition ascii :: "string \<Rightarrow> pystr" where
  "ascii s = map of_char s"

subsection \<open>The interpreter\<close>

text \<open>
  What \<open>int()\<close> and \<open>str()\<close> take from the interpreter and not from the
  repository: the Unicode database (which code points from 128 on are whitespace,
  which are decimal digits and of what value), the limit on the number of digits of
  a conversion (\<open>sys.get_int_max_str_digits()\<close>, 0 for no limit) and the message of
  the \<open>ValueError\<close> that \<open>str()\<close> raises beyond it. Every property below holds for
  every interpreter.
\<close>

record interp =
  isspace_uni :: "nat \<Rightarrow> bool"
  todecimal :: "nat \<Rightarrow> nat option"
  max_str_digits :: nat
  digits_message :: string

subsection \<open>\<open>int(s)\<close> and \<open>str(n)\<close>\<close>

text \<open>
  \<open>int(s)\<close> on a \<open>str\<close>, base 10, as CPython computes it. First every code point
  from 128 on is replaced: whitespace by a space, a decimal digit by its ASCII
  digit, anything else by \<open>?\<close>. Then the ASCII text is read: leading and trailing
  whitespace (the six characters of \<open>Py_ISSPACE\<close>) is skipped, one sign is allowed,
  the digits may be separated by single underscores, leading zeros are allowed.
  More digits than the limit (when the limit is not 0 and there are more than 640)
  and anything else raise \<open>ValueError\<close> (here: \<open>None\<close>).
\<close>

definition py_isspace :: "char \<Rightarrow> bool" where
  "py_isspace c = (of_char c \<in> {9, 10, 11, 12, 13, 32 :: nat})"

definition is_digit :: "char \<Rightarrow> bool" where
  "is_digit c = (48 \<le> (of_char c :: nat) \<and> (of_char c :: nat) \<le> 57)"

definition digit_value :: "char \<Rightarrow> nat" where
  "digit_value c = of_char c - 48"

definition digit_char :: "nat \<Rightarrow> char" where
  "digit_char d = char_of (48 + d)"

definition is_body :: "char \<Rightarrow> bool" where
  "is_body c = (is_digit c \<or> c = CHR ''_'')"

fun double_underscore :: "string \<Rightarrow> bool" where
  "double_underscore (a # b # cs) =
     ((a = CHR ''_'' \<and> b = CHR ''_'') \<or> double_underscore (b # cs))"
| "double_underscore _ = False"

definition digits_val :: "string \<Rightarrow> nat" where
  "digits_val ds = foldl (\<lambda>acc c. 10 * acc + digit_value c) 0 ds"

definition normalize :: "interp \<Rightarrow> nat \<Rightarrow> char" where
  "normalize py c =
     (if c < 128 then char_of c
      else if isspace_uni py c then CHR '' ''
      else (case todecimal py c of
              Some d \<Rightarrow> if d < 10 then digit_char d else CHR ''?''
            | None \<Rightarrow> CHR ''?''))"

definition exceeds_limit :: "nat \<Rightarrow> nat \<Rightarrow> bool" where
  "exceeds_limit limit k = (0 < limit \<and> 640 < k \<and> limit < k)"

definition parse_int :: "nat \<Rightarrow> string \<Rightarrow> int option" where
  "parse_int limit s =
     (let s1 = dropWhile py_isspace s;
          neg = (case s1 of [] \<Rightarrow> False | c # _ \<Rightarrow> c = CHR ''-'');
          s2 = (case s1 of [] \<Rightarrow> []
                | c # r \<Rightarrow> if c = CHR ''+'' \<or> c = CHR ''-'' then r else s1);
          body = takeWhile is_body s2;
          rest = dropWhile py_isspace (dropWhile is_body s2)
      in if body = [] \<or> hd body = CHR ''_'' \<or> last body = CHR ''_''
            \<or> double_underscore body \<or> rest \<noteq> []
            \<or> exceeds_limit limit (length (filter is_digit body))
         then None
         else Some ((if neg then - 1 else 1) * int (digits_val (filter is_digit body))))"

definition py_int :: "interp \<Rightarrow> pystr \<Rightarrow> int option" where
  "py_int py s = parse_int (max_str_digits py) (map (normalize py) s)"

text \<open>
  \<open>str(n)\<close> of an integer: decimal, no leading zeros, a minus sign when negative;
  \<open>None\<close> when it raises \<open>ValueError\<close> because the number has more digits than the
  limit.
\<close>

fun nat_str :: "nat \<Rightarrow> string" where
  "nat_str n = (if n < 10 then [digit_char n] else nat_str (n div 10) @ [digit_char (n mod 10)])"

declare nat_str.simps [simp del]

definition int_str :: "int \<Rightarrow> string" where
  "int_str i = (if i < 0 then CHR ''-'' # nat_str (nat (- i)) else nat_str (nat i))"

definition py_str :: "interp \<Rightarrow> int \<Rightarrow> pystr option" where
  "py_str py i =
     (if exceeds_limit (max_str_digits py) (length (nat_str (nat \<bar>i\<bar>))) then None
      else Some (ascii (int_str i)))"

section \<open>The data model (\<open>models.py\<close>)\<close>

text \<open>
  A row of the \<open>users\<close> table. The primary key \<open>id\<close> is the key under which the
  table holds the row. \<open>has_access\<close> is the only boolean column of the class.
\<close>

record user =
  email :: string
  hashed_password :: string
  name :: string
  referral_code :: string
  referrer_id :: "int option"
  has_access :: bool

text \<open>
  Assigning to an attribute of a loaded \<open>User\<close> object. The class declares the
  boolean column as \<open>has_access = Column(Boolean, default=False)\<close> (line 14 of
  \<open>models.py\<close>, the only declaration of \<open>User\<close> in the repository); an assignment
  to another attribute name makes a plain attribute of the Python object, which the
  mapper does not track and which is not a column of the row.
\<close>

definition setattr_user :: "string \<Rightarrow> bool \<Rightarrow> user \<Rightarrow> user" where
  "setattr_user attr v u = (if attr = ''has_access'' then u\<lparr>has_access := v\<rparr> else u)"

section \<open>The store: a database session\<close>

text \<open>
  The operations the code performs on its session, in order. The log lets a theorem
  say that a path performs no store access, or no write.
\<close>

datatype db_op =
    Query int
  | SetAttr int string bool
  | Add int
  | Commit
  | Rollback
  | Close

text \<open>
  \<open>rows\<close> is the persisted table, \<open>dirty\<close> the rows changed in the session and not
  yet committed, \<open>query_fails\<close> and \<open>commit_fails\<close> say whether a lookup and
  \<open>db.commit()\<close> raise (a database that cannot be reached, a constraint),
  \<open>oplog\<close> records the operations.
\<close>

record db =
  rows :: "int \<rightharpoonup> user"
  dirty :: "int \<rightharpoonup> user"
  query_fails :: bool
  commit_fails :: bool
  oplog :: "db_op list"

text \<open>\<open>db.query(User).filter(User.id == uid).first()\<close>: \<open>Inl e\<close> when it raises.\<close>

definition query_first :: "int \<Rightarrow> db \<Rightarrow> (exn + user option) \<times> db" where
  "query_first uid d =
     (if query_fails d then Inl SQLAlchemyError
      else Inr (case dirty d uid of Some u \<Rightarrow> Some u | None \<Rightarrow> rows d uid),
      d\<lparr>oplog := oplog d @ [Query uid]\<rparr>)"

text \<open>\<open>user.attr = v\<close> on the object \<open>u\<close> loaded for key \<open>uid\<close>.\<close>

definition set_attr :: "int \<Rightarrow> user \<Rightarrow> string \<Rightarrow> bool \<Rightarrow> db \<Rightarrow> db" where
  "set_attr uid u attr v d =
     d\<lparr>dirty := (if attr = ''has_access'' then (dirty d)(uid \<mapsto> setattr_user attr v u)
                  else dirty d),
       oplog := oplog d @ [SetAttr uid attr v]\<rparr>"

text \<open>\<open>db.add(user)\<close>: the object is already in the session.\<close>

definition add :: "int \<Rightarrow> db \<Rightarrow> db" where
  "add uid d = d\<lparr>oplog := oplog d @ [Add uid]\<rparr>"

text \<open>\<open>db.commit()\<close>: \<open>Some e\<close> when it raises.\<close>

definition commit :: "db \<Rightarrow> exn option \<times> db" where
  "commit d =
     (if commit_fails d then (Some SQLAlchemyError, d\<lparr>oplog := oplog d @ [Commit]\<rparr>)
      else (None, d\<lparr>rows := rows d ++ dirty d, dirty := Map.empty,
                     oplog := oplog d @ [Commit]\<rparr>))"

definition rollback :: "db \<Rightarrow> db" where
  "rollback d = d\<lparr>dirty := Map.empty, oplog := oplog d @ [Rollback]\<rparr>"

text \<open>\<open>SessionLocal()\<close>: a new session on the same database.\<close>

definition SessionLocal :: "db \<Rightarrow> db" where
  "SessionLocal d = d\<lparr>dirty := Map.empty\<rparr>"

definition close :: "db \<Rightarrow> db" where
  "close d = d\<lparr>dirty := Map.empty, oplog := oplog d @ [Close]\<rparr>"

section \<open>The payment provider\<close>

text \<open>
  An entry of a provider object (a dictionary): the key is absent, or its value is
  \<open>null\<close>, or it has a value.
\<close>

datatype 'a field = Absent | Null | Val 'a

text \<open>
  A provider object as the code reads it: its id, which every object has, the
  payment status of a checkout session (\<open>None\<close> when absent or \<open>null\<close>), its
  metadata, the subscription of an invoice.
\<close>

record stripe_object =
  obj_id :: string
  payment_status :: "string option"
  metadata :: "(string \<rightharpoonup> pystr) field"
  subscription :: "string field"

text \<open>
  \<open>obj.get("metadata", {})\<close>: the empty dictionary when the key is absent, Python's
  \<open>None\<close> (here \<open>None\<close>) when its value is \<open>null\<close>.
\<close>

definition get_metadata :: "stripe_object \<Rightarrow> (string \<rightharpoonup> pystr) option" where
  "get_metadata obj =
     (case metadata obj of Absent \<Rightarrow> Some Map.empty | Null \<Rightarrow> None | Val m \<Rightarrow> Some m)"

text \<open>
  \<open>stripe.checkout.Session.retrieve\<close>: the provider's answer for a session id;
  \<open>None\<close> when the call raises.
\<close>

type_synonym stripe = "string \<rightharpoonup> stripe_object"

record event =
  event_type :: string
  data_object :: stripe_object

record request =
  body :: string
  sig_header :: "string option"

text \<open>
  \<open>stripe.Webhook.construct_event\<close> with the configured secret: the vendor's
  verifier, taken as a parameter. It raises \<open>ValueError\<close> for a body that does not
  parse and \<open>SignatureVerificationError\<close> for a signature that does not match.
\<close>

type_synonym verifier = "request \<Rightarrow> exn + event"

text \<open>
  What an endpoint gives the framework: a JSON body, an \<open>HTTPException\<close> with its
  status and detail, or an exception that nothing caught (the framework answers
  500).
\<close>

datatype response =
    JSONResponse "(string \<times> string) list"
  | HTTPException nat string
  | Uncaught exn

definition success_ack :: response where
  "success_ack = JSONResponse [(''status'', ''success'')]"

definition checkout_events :: "string list" where
  "checkout_events = [''checkout.session.completed'', ''checkout.session.async_payment_succeeded'']"

section \<open>\<open>fullfillment-service/fullfillment.py\<close>\<close>

text \<open>
  \<open>fulfill_service\<close>: everything runs inside one \<open>try\<close>; each \<open>ValueError\<close> and
  every other exception (a session without metadata, a lookup or a commit that
  raises) ends in \<open>return False\<close>.
\<close>

definition fullfillment_fulfill_service ::
    "interp \<Rightarrow> stripe \<Rightarrow> string \<Rightarrow> db \<Rightarrow> bool \<times> db" where
  "fullfillment_fulfill_service py api session_id d =
     (case api session_id of
        None \<Rightarrow> (False, d)
      | Some session \<Rightarrow>
          if payment_status session \<noteq> Some ''paid'' then (False, d)
          else (case metadata session of
              Absent \<Rightarrow> (False, d)
            | Null \<Rightarrow> (False, d)
            | Val m \<Rightarrow>
                (case m ''cartID'' of
                   None \<Rightarrow> (False, d)
                 | Some cart_id \<Rightarrow>
                     if cart_id = [] then (False, d)
                     else (case py_int py cart_id of
                         None \<Rightarrow> (False, d)
                       | Some uid \<Rightarrow>
                           (case query_first uid d of
                              (Inl e, d1) \<Rightarrow> (False, d1)
                            | (Inr None, d1) \<Rightarrow> (False, d1)
                            | (Inr (Some u), d1) \<Rightarrow>
                                if \<not> has_access u then
                                  (case commit (set_attr uid u ''has_access'' True d1) of
                                     (Some e, d2) \<Rightarrow> (False, d2)
                                   | (None, d2) \<Rightarrow> (True, d2))
                                else (True, d1))))))"

section \<open>\<open>fullfillment-service/webhook-handler.py\<close>\<close>

text \<open>
  \<open>fulfill_service\<close> of this file: \<open>Inr b\<close> when it returns \<open>b\<close>, \<open>Inl e\<close> when
  \<open>e\<close> reaches the caller. The retrieval, \<open>int()\<close> and the commit are inside a
  \<open>try\<close>; \<open>metadata.get\<close> (line 104) and the lookup (line 120) are not. The
  attribute it assigns is \<open>has_platform_access\<close> (line 126), unconditionally; the
  check of a fulfilled-sessions ledger before it is commented out.
\<close>

definition webhook_handler_fulfill_service ::
    "interp \<Rightarrow> stripe \<Rightarrow> string \<Rightarrow> db \<Rightarrow> (exn + bool) \<times> db" where
  "webhook_handler_fulfill_service py api session_id d =
     (case api session_id of
        None \<Rightarrow> (Inr False, d)
      | Some session \<Rightarrow>
          if payment_status session \<noteq> Some ''paid'' then (Inr False, d)
          else (case get_metadata session of
              None \<Rightarrow> (Inl AttributeError, d)
            | Some m \<Rightarrow>
                (case m ''cartID'' of
                   None \<Rightarrow> (Inr False, d)
                 | Some user_id_str \<Rightarrow>
                     if user_id_str = [] then (Inr False, d)
                     else (case py_int py user_id_str of
                         None \<Rightarrow> (Inr False, d)
                       | Some user_id \<Rightarrow>
                           (case query_first user_id d of
                              (Inl e, d1) \<Rightarrow> (Inl e, d1)
                            | (Inr None, d1) \<Rightarrow> (Inr False, d1)
                            | (Inr (Some u), d1) \<Rightarrow>
                                (case commit (set_attr user_id u ''has_platform_access'' True d1) of
                                   (Some e, d2) \<Rightarrow> (Inr False, rollback d2)
                                 | (None, d2) \<Rightarrow> (Inr True, d2)))))))"

text \<open>
  \<open>extract_user_id_from_invoice\<close>: the \<open>user_id\<close> entry of the invoice metadata,
  parsed; the subscription branch is \<open>pass\<close> and the customer lookup is commented
  out, so every other path returns \<open>None\<close>. \<open>metadata.get\<close> (line 208) raises when
  the metadata of the invoice is \<open>null\<close>.
\<close>

definition extract_user_id_from_invoice :: "interp \<Rightarrow> stripe_object \<Rightarrow> exn + int option" where
  "extract_user_id_from_invoice py invoice =
     (case get_metadata invoice of
        None \<Rightarrow> Inl AttributeError
      | Some m \<Rightarrow>
          (case m ''user_id'' of
             Some user_id_str \<Rightarrow>
               if user_id_str \<noteq> [] then Inr (py_int py user_id_str)
               else (case subscription invoice of Val subscription_id \<Rightarrow> Inr None | _ \<Rightarrow> Inr None)
           | None \<Rightarrow>
               (case subscription invoice of Val subscription_id \<Rightarrow> Inr None | _ \<Rightarrow> Inr None)))"

text \<open>
  The two invoice handlers return nothing: the result is the exception that reaches
  the caller, if any. \<open>if not user_id\<close> is true for \<open>None\<close> and for \<open>0\<close>. The lookup
  (lines 155 and 183) is outside the \<open>try\<close>, the commit inside.
\<close>

definition handle_invoice_payment_succeeded ::
    "interp \<Rightarrow> stripe_object \<Rightarrow> db \<Rightarrow> exn option \<times> db" where
  "handle_invoice_payment_succeeded py invoice d =
     (case extract_user_id_from_invoice py invoice of
        Inl e \<Rightarrow> (Some e, d)
      | Inr None \<Rightarrow> (None, d)
      | Inr (Some user_id) \<Rightarrow>
          if user_id = 0 then (None, d)
          else (case query_first user_id d of
              (Inl e, d1) \<Rightarrow> (Some e, d1)
            | (Inr None, d1) \<Rightarrow> (None, d1)
            | (Inr (Some u), d1) \<Rightarrow>
                (case commit (set_attr user_id u ''has_platform_access'' True d1) of
                   (Some e, d2) \<Rightarrow> (None, rollback d2)
                 | (None, d2) \<Rightarrow> (None, d2))))"

definition handle_invoice_payment_failed ::
    "interp \<Rightarrow> stripe_object \<Rightarrow> db \<Rightarrow> exn option \<times> db" where
  "handle_invoice_payment_failed py invoice d =
     (case extract_user_id_from_invoice py invoice of
        Inl e \<Rightarrow> (Some e, d)
      | Inr None \<Rightarrow> (None, d)
      | Inr (Some user_id) \<Rightarrow>
          if user_id = 0 then (None, d)
          else (case query_first user_id d of
              (Inl e, d1) \<Rightarrow> (Some e, d1)
            | (Inr None, d1) \<Rightarrow> (None, d1)
            | (Inr (Some u), d1) \<Rightarrow>
                (case commit (set_attr user_id u ''has_platform_access'' False d1) of
                   (Some e, d2) \<Rightarrow> (None, rollback d2)
                 | (None, d2) \<Rightarrow> (None, d2))))"

text \<open>
  The endpoint \<open>/webhook\<close>. Only \<open>SignatureVerificationError\<close> is caught around the
  verifier; the handlers are called without a \<open>try\<close> (lines 55, 62 and 66), so what
  they raise leaves the endpoint; the two schedule events only log.
\<close>

definition webhook_handler_stripe_webhook ::
    "interp \<Rightarrow> verifier \<Rightarrow> stripe \<Rightarrow> request \<Rightarrow> db \<Rightarrow> response \<times> db" where
  "webhook_handler_stripe_webhook py construct_event api req d =
     (case construct_event req of
        Inl e \<Rightarrow>
          if e = SignatureVerificationError
          then (HTTPException 400 ''Invalid webhook signature'', d)
          else (Uncaught e, d)
      | Inr ev \<Rightarrow>
          if event_type ev \<in> set checkout_events then
            (case webhook_handler_fulfill_service py api (obj_id (data_object ev)) d of
               (Inl e, d1) \<Rightarrow> (Uncaught e, d1)
             | (Inr success, d1) \<Rightarrow>
                 if \<not> success then (HTTPException 500 ''Failed to fulfill the service'', d1)
                 else (success_ack, d1))
          else if event_type ev = ''invoice.payment_succeeded'' then
            (case handle_invoice_payment_succeeded py (data_object ev) d of
               (Some e, d1) \<Rightarrow> (Uncaught e, d1)
             | (None, d1) \<Rightarrow> (success_ack, d1))
          else if event_type ev = ''invoice.payment_failed'' then
            (case handle_invoice_payment_failed py (data_object ev) d of
               (Some e, d1) \<Rightarrow> (Uncaught e, d1)
             | (None, d1) \<Rightarrow> (success_ack, d1))
          else if event_type ev = ''subscription_schedule.completed'' then (success_ack, d)
          else if event_type ev = ''subscription_schedule.created'' then (success_ack, d)
          else (success_ack, d))"

section \<open>\<open>fullfillment-service/main.py\<close>\<close>

text \<open>The two placeholders of the fulfilled-sessions ledger.\<close>

definition is_session_already_fulfilled :: "string \<Rightarrow> bool" where
  "is_session_already_fulfilled session_id = False"

definition mark_session_as_fulfilled :: "string \<Rightarrow> db \<Rightarrow> db" where
  "mark_session_as_fulfilled session_id d = d"

text \<open>
  \<open>fulfill_order\<close> returns nothing: the result is the exception that leaves it, if
  any. \<open>metadata.get\<close> (line 96) is outside every \<open>try\<close>. The function opens its
  own session; the lookup and the commit are inside the \<open>try\<close>, whose handler rolls
  back, and \<open>finally\<close> closes the session.
\<close>

definition fulfill_order :: "interp \<Rightarrow> stripe \<Rightarrow> string \<Rightarrow> db \<Rightarrow> exn option \<times> db" where
  "fulfill_order py api session_id d =
     (case api session_id of
        None \<Rightarrow> (None, d)
      | Some session \<Rightarrow>
          if payment_status session \<noteq> Some ''paid'' then (None, d)
          else (case get_metadata session of
              None \<Rightarrow> (Some AttributeError, d)
            | Some m \<Rightarrow>
                (case m ''cartID'' of
                   None \<Rightarrow> (None, d)
                 | Some cart \<Rightarrow>
                     if cart = [] then (None, d)
                     else (case py_int py cart of
                         None \<Rightarrow> (None, d)
                       | Some user_id \<Rightarrow>
                           if is_session_already_fulfilled session_id then (None, d)
                           else (case query_first user_id (SessionLocal d) of
                               (Inr (Some u), d1) \<Rightarrow>
                                 (case commit (add user_id
                                          (set_attr user_id u ''has_platform_access'' True d1)) of
                                    (None, d2) \<Rightarrow>
                                      (None, close (mark_session_as_fulfilled session_id d2))
                                  | (Some e, d2) \<Rightarrow> (None, close (rollback d2)))
                             | (Inr None, d1) \<Rightarrow> (None, close d1)
                             | (Inl e, d1) \<Rightarrow> (None, close (rollback d1)))))))"

text \<open>
  Both invoice handlers of this file only write a log line, which reads
  \<open>invoice['subscription']\<close> and raises \<open>KeyError\<close> when the invoice has no such
  key.
\<close>

definition handle_subscription_renewal :: "stripe_object \<Rightarrow> db \<Rightarrow> exn option \<times> db" where
  "handle_subscription_renewal invoice d =
     (if subscription invoice = Absent then Some KeyError else None, d)"

definition handle_failed_payment :: "stripe_object \<Rightarrow> db \<Rightarrow> exn option \<times> db" where
  "handle_failed_payment invoice d =
     (if subscription invoice = Absent then Some KeyError else None, d)"

text \<open>
  The endpoint \<open>/webhooks/stripe\<close> queues the handler as a background task, which
  runs after the response has been sent, and answers at once.
\<close>

datatype task =
    FulfillOrder string
  | HandleSubscriptionRenewal stripe_object
  | HandleFailedPayment stripe_object

definition run_task :: "interp \<Rightarrow> stripe \<Rightarrow> task \<Rightarrow> db \<Rightarrow> exn option \<times> db" where
  "run_task py api t d =
     (case t of
        FulfillOrder session_id \<Rightarrow> fulfill_order py api session_id d
      | HandleSubscriptionRenewal invoice \<Rightarrow> handle_subscription_renewal invoice d
      | HandleFailedPayment invoice \<Rightarrow> handle_failed_payment invoice d)"

definition main_stripe_webhook :: "verifier \<Rightarrow> request \<Rightarrow> response \<times> task list" where
  "main_stripe_webhook construct_event req =
     (case construct_event req of
        Inl e \<Rightarrow>
          if e = ValueError then (HTTPException 400 ''Invalid payload'', [])
          else if e = SignatureVerificationError then (HTTPException 400 ''Invalid signature'', [])
          else (Uncaught e, [])
      | Inr ev \<Rightarrow>
          if event_type ev \<in> set checkout_events then
            (success_ack, [FulfillOrder (obj_id (data_object ev))])
          else if event_type ev = ''invoice.payment_succeeded'' then
            (success_ack, [HandleSubscriptionRenewal (data_object ev)])
          else if event_type ev = ''invoice.payment_failed'' then
            (success_ack, [HandleFailedPayment (data_object ev)])
          else (success_ack, []))"

section \<open>\<open>payment-link.py\<close>\<close>

definition PRICE_IDS :: "(string \<times> string) list" where
  "PRICE_IDS =
     [(''bronze'', ''price_1QhzfBIZhbjcBaqMHUSuptHA''),
      (''silver'', ''price_1QhzfAIZhbjcBaqMSilverXXX''),
      (''gold'', ''price_1QhzfAIZhbjcBaqMGoldXXX'')]"

record PaymentLinkRequest =
  user_id :: int
  plan :: string

text \<open>The arguments of \<open>stripe.PaymentLink.create\<close>.\<close>

record payment_link_params =
  price :: string
  quantity :: nat
  link_metadata :: "(string \<times> pystr) list"
  custom_message :: string

text \<open>
  The provider as the issuer sees it: \<open>answer\<close> is what
  \<open>stripe.PaymentLink.create\<close> returns for given arguments, the URL of the link
  (\<open>Inr\<close>) or an exception with its message (\<open>Inl\<close>); \<open>calls\<close> are the arguments of
  the calls made so far.
\<close>

record provider =
  answer :: "payment_link_params \<Rightarrow> string + string"
  calls :: "payment_link_params list"

definition PaymentLink_create ::
    "payment_link_params \<Rightarrow> provider \<Rightarrow> (string + string) \<times> provider" where
  "PaymentLink_create p pr = (answer pr p, pr\<lparr>calls := calls pr @ [p]\<rparr>)"

text \<open>\<open>str.capitalize()\<close> on ASCII: first letter upper case, the others lower case.\<close>

definition upper_char :: "char \<Rightarrow> char" where
  "upper_char c =
     (if 97 \<le> (of_char c :: nat) \<and> (of_char c :: nat) \<le> 122 then char_of (of_char c - 32 :: nat) else c)"

definition lower_char :: "char \<Rightarrow> char" where
  "lower_char c =
     (if 65 \<le> (of_char c :: nat) \<and> (of_char c :: nat) \<le> 90 then char_of (of_char c + 32 :: nat) else c)"

definition capitalize :: "string \<Rightarrow> string" where
  "capitalize s = (case s of [] \<Rightarrow> [] | c # cs \<Rightarrow> upper_char c # map lower_char cs)"

definition link_params :: "PaymentLinkRequest \<Rightarrow> string \<Rightarrow> pystr \<Rightarrow> payment_link_params" where
  "link_params req price_id cart =
     \<lparr>price = price_id, quantity = 1,
      link_metadata = [(''cartID'', cart)],
      custom_message = ''Thank you for subscribing to the '' @ capitalize (plan req) @ '' plan!''\<rparr>"

text \<open>
  \<open>create_payment_link\<close>. The session \<open>db\<close> is the function's second argument; the
  file names \<open>get_db\<close> as its default without importing it. The lookup is outside
  the \<open>try\<close>; \<open>str(request.user_id)\<close> and the call of the provider are inside, and
  what they raise becomes an \<open>HTTPException\<close> with status 500.
\<close>

definition create_payment_link ::
    "interp \<Rightarrow> PaymentLinkRequest \<Rightarrow> provider \<Rightarrow> db \<Rightarrow> response \<times> provider \<times> db" where
  "create_payment_link py req pr d =
     (case query_first (user_id req) d of
        (Inl e, d1) \<Rightarrow> (Uncaught e, pr, d1)
      | (Inr None, d1) \<Rightarrow> (HTTPException 404 ''User not found'', pr, d1)
      | (Inr (Some u), d1) \<Rightarrow>
          (case map_of PRICE_IDS (plan req) of
             None \<Rightarrow> (HTTPException 400 ''Invalid subscription plan'', pr, d1)
           | Some price_id \<Rightarrow>
               (case py_str py (user_id req) of
                  None \<Rightarrow>
                    (HTTPException 500 (''Failed to create payment link: '' @ digits_message py),
                     pr, d1)
                | Some cart \<Rightarrow>
                    (case PaymentLink_create (link_params req price_id cart) pr of
                       (Inr url, pr1) \<Rightarrow> (JSONResponse [(''payment_link_url'', url)], pr1, d1)
                     | (Inl e, pr1) \<Rightarrow>
                         (HTTPException 500 (''Failed to create payment link: '' @ e), pr1, d1)))))"

section \<open>Store operations that write\<close>

text \<open>
  A query and the closing of a session read or release; every other operation is a
  write or ends a transaction. \<open>writes\<close> are the write operations a session has
  performed so far.
\<close>

fun is_write :: "db_op \<Rightarrow> bool" where
  "is_write (Query uid) = False"
| "is_write Close = False"
| "is_write (SetAttr uid attr v) = True"
| "is_write (Add uid) = True"
| "is_write Commit = True"
| "is_write Rollback = True"

definition writes :: "db \<Rightarrow> db_op list" where
  "writes d = filter is_write (oplog d)"

section \<open>Example values\<close>

text \<open>
  An interpreter: CPython 3.11 with the Unicode database 14.0 and the default limit
  of 4300 digits. \<open>decimal_zeros\<close> are the code points of the digit zero of each
  script; the nine code points after each are its digits one to nine.
\<close>

definition unicode_spaces :: "nat list" where
  "unicode_spaces =
     [0x85, 0xA0, 0x1680, 0x2000, 0x2001, 0x2002, 0x2003, 0x2004, 0x2005, 0x2006, 0x2007,
      0x2008, 0x2009, 0x200A, 0x2028, 0x2029, 0x202F, 0x205F, 0x3000]"

definition decimal_zeros :: "nat list" where
  "decimal_zeros =
     [0x660, 0x6F0, 0x7C0, 0x966, 0x9E6, 0xA66, 0xAE6, 0xB66, 0xBE6, 0xC66, 0xCE6, 0xD66,
      0xDE6, 0xE50, 0xED0, 0xF20, 0x1040, 0x1090, 0x17E0, 0x1810, 0x1946, 0x19D0, 0x1A80,
      0x1A90, 0x1B50, 0x1BB0, 0x1C40, 0x1C50, 0xA620, 0xA8D0, 0xA900, 0xA9D0, 0xA9F0,
      0xAA50, 0xABF0, 0xFF10, 0x104A0, 0x10D30, 0x11066, 0x110F0, 0x11136, 0x111D0,
      0x112F0, 0x11450, 0x114D0, 0x11650, 0x116C0, 0x11730, 0x118E0, 0x11950, 0x11C50,
      0x11D50, 0x11DA0, 0x16A60, 0x16AC0, 0x16B50, 0x1D7CE, 0x1D7D8, 0x1D7E2, 0x1D7EC,
      0x1D7F6, 0x1E140, 0x1E2F0, 0x1E950, 0x1FBF0]"

definition cpython :: interp where
  "cpython =
     \<lparr>isspace_uni = (\<lambda>c. c \<in> set unicode_spaces),
      todecimal = (\<lambda>c. case find (\<lambda>z. z \<le> c \<and> c < z + 10) decimal_zeros of
                          Some z \<Rightarrow> Some (c - z) | None \<Rightarrow> None),
      max_str_digits = 4300,
      digits_message = ''Exceeds the limit (4300 digits) for integer string conversion; use sys.set_int_max_str_digits() to increase the limit''\<rparr>"

text \<open>
  The scenario of the specification: session \<open>cs_1\<close> is paid and carries
  \<open>cartID = "42"\<close>; user 42 exists. \<open>cs_2\<close> is unpaid, \<open>cs_3\<close> is paid without a
  \<open>cartID\<close>, \<open>cs_4\<close> carries a \<open>cartID\<close> that is no number, \<open>cs_5\<close> names user 7,
  who does not exist, the metadata of \<open>cs_6\<close> is \<open>null\<close>. \<open>store_down\<close> is the
  store of \<open>store0\<close> when the database cannot be reached.
\<close>

definition user42 :: user where
  "user42 = \<lparr>email = ''ann@example.com'', hashed_password = ''h'', name = ''Ann'',
             referral_code = ''r42'', referrer_id = None, has_access = False\<rparr>"

definition store0 :: db where
  "store0 = \<lparr>rows = [42 \<mapsto> user42], dirty = Map.empty, query_fails = False,
             commit_fails = False, oplog = []\<rparr>"

definition store_granted :: db where
  "store_granted = \<lparr>rows = [42 \<mapsto> user42\<lparr>has_access := True\<rparr>], dirty = Map.empty,
                    query_fails = False, commit_fails = False, oplog = []\<rparr>"

definition store_down :: db where
  "store_down = \<lparr>rows = [42 \<mapsto> user42], dirty = Map.empty, query_fails = True,
                 commit_fails = True, oplog = []\<rparr>"

definition checkout ::
    "string \<Rightarrow> string \<Rightarrow> (string \<rightharpoonup> pystr) field \<Rightarrow> stripe_object" where
  "checkout i st md = \<lparr>obj_id = i, payment_status = Some st, metadata = md, subscription = Null\<rparr>"

definition api1 :: stripe where
  "api1 = [''cs_1'' \<mapsto> checkout ''cs_1'' ''paid'' (Val [''cartID'' \<mapsto> ascii ''42'']),
           ''cs_2'' \<mapsto> checkout ''cs_2'' ''unpaid'' (Val [''cartID'' \<mapsto> ascii ''42'']),
           ''cs_3'' \<mapsto> checkout ''cs_3'' ''paid'' (Val Map.empty),
           ''cs_4'' \<mapsto> checkout ''cs_4'' ''paid'' (Val [''cartID'' \<mapsto> ascii ''abc'']),
           ''cs_5'' \<mapsto> checkout ''cs_5'' ''paid'' (Val [''cartID'' \<mapsto> ascii ''7'']),
           ''cs_6'' \<mapsto> checkout ''cs_6'' ''paid'' Null]"

definition invoice42 :: stripe_object where
  "invoice42 = \<lparr>obj_id = ''in_1'', payment_status = None,
                metadata = Val [''user_id'' \<mapsto> ascii ''42''], subscription = Val ''sub_1''\<rparr>"

definition invoice_cart :: stripe_object where
  "invoice_cart = \<lparr>obj_id = ''in_2'', payment_status = None,
                   metadata = Val [''cartID'' \<mapsto> ascii ''42''], subscription = Val ''sub_1''\<rparr>"

definition invoice_null :: stripe_object where
  "invoice_null = \<lparr>obj_id = ''in_3'', payment_status = None, metadata = Null,
                   subscription = Val ''sub_1''\<rparr>"

definition event_of :: "string \<Rightarrow> stripe_object \<Rightarrow> event" where
  "event_of t obj = \<lparr>event_type = t, data_object = obj\<rparr>"

definition request1 :: request where
  "request1 = \<lparr>body = ''{}'', sig_header = Some ''t=1,v1=00''\<rparr>"

definition provider1 :: provider where
  "provider1 = \<lparr>answer = (\<lambda>p. Inr ''https://buy.stripe.com/test_1''), calls = []\<rparr>"

section \<open>Properties of \<open>int\<close> and \<open>str\<close>\<close>

lemma digit_char_is_digit: "d < 10 \<Longrightarrow> is_digit (digit_char d)"
  by (simp add: is_digit_def digit_char_def)

lemma digit_value_digit_char: "d < 10 \<Longrightarrow> digit_value (digit_char d) = d"
  by (simp add: digit_value_def digit_char_def)

lemma is_digit_not_special:
  "is_digit c \<Longrightarrow> \<not> py_isspace c \<and> c \<noteq> CHR ''-'' \<and> c \<noteq> CHR ''+'' \<and> c \<noteq> CHR ''_''"
  by (auto simp: is_digit_def py_isspace_def)

lemma is_digit_ascii: "is_digit c \<Longrightarrow> of_char c < (128 :: nat)"
  by (simp add: is_digit_def)

lemma nat_str_digits: "c \<in> set (nat_str n) \<Longrightarrow> is_digit c"
proof (induction n arbitrary: c rule: nat_str.induct)
  case (1 n)
  show ?case
  proof (cases "n < 10")
    case True
    with "1.prems" show ?thesis
      by (simp add: nat_str.simps [of n] digit_char_is_digit)
  next
    case False
    with "1.prems" "1.IH" show ?thesis
      by (auto simp: nat_str.simps [of n] digit_char_is_digit)
  qed
qed

lemma nat_str_nonempty: "nat_str n \<noteq> []"
  by (subst nat_str.simps) simp

lemma digits_val_snoc: "digits_val (ds @ [c]) = 10 * digits_val ds + digit_value c"
  by (simp add: digits_val_def)

lemma digits_val_nat_str: "digits_val (nat_str n) = n"
proof (induction n rule: nat_str.induct)
  case (1 n)
  show ?case
  proof (cases "n < 10")
    case True
    then show ?thesis
      by (simp add: nat_str.simps [of n] digits_val_def digit_value_digit_char)
  next
    case False
    with "1.IH" show ?thesis
      by (simp add: nat_str.simps [of n] digits_val_snoc digit_value_digit_char)
  qed
qed

lemma no_double_underscore: "\<forall>c \<in> set ds. is_digit c \<Longrightarrow> \<not> double_underscore ds"
  by (induction ds rule: double_underscore.induct) (auto dest: is_digit_not_special)

lemma parse_int_digits:
  assumes ds: "\<forall>c \<in> set ds. is_digit c" and ne: "ds \<noteq> []"
    and lim: "\<not> exceeds_limit limit (length ds)"
  shows "parse_int limit ds = Some (int (digits_val ds))"
    and "parse_int limit (CHR ''-'' # ds) = Some (- int (digits_val ds))"
proof -
  obtain c cs where cons: "ds = c # cs" using ne by (cases ds) auto
  have c: "is_digit c" using ds cons by simp
  have hd: "\<not> py_isspace c" "c \<noteq> CHR ''-''" "c \<noteq> CHR ''+''" "c \<noteq> CHR ''_''"
    using is_digit_not_special [OF c] by simp_all
  have tw: "takeWhile is_body ds = ds" "dropWhile is_body ds = []"
    using ds by (auto simp: is_body_def)
  have fl: "filter is_digit ds = ds" using ds by (simp add: filter_id_conv)
  have lst: "last ds \<noteq> CHR ''_''"
    using ds ne is_digit_not_special [of "last ds"] last_in_set [OF ne] by blast
  have hdd: "hd ds \<noteq> CHR ''_''" using cons hd by simp
  have du: "\<not> double_underscore ds" using ds by (rule no_double_underscore)
  have sp: "dropWhile py_isspace ds = ds" using cons hd by simp
  have neg: "(case ds of [] \<Rightarrow> False | c # _ \<Rightarrow> c = CHR ''-'') = False"
    using cons hd by simp
  have s2: "(case ds of [] \<Rightarrow> [] | c # r \<Rightarrow> if c = CHR ''+'' \<or> c = CHR ''-'' then r else ds) = ds"
    using cons hd by simp
  have minus: "dropWhile py_isspace (CHR ''-'' # ds) = CHR ''-'' # ds"
    by (simp add: py_isspace_def)
  show "parse_int limit ds = Some (int (digits_val ds))"
    unfolding parse_int_def Let_def sp neg s2 tw fl
    using lst hdd du ne lim by simp
  show "parse_int limit (CHR ''-'' # ds) = Some (- int (digits_val ds))"
    unfolding parse_int_def Let_def minus list.case tw fl
    using lst hdd du ne lim by (simp add: tw fl)
qed

lemma normalize_ascii:
  "\<forall>c \<in> set s. of_char c < (128 :: nat) \<Longrightarrow> map (normalize py) (ascii s) = s"
  by (induction s) (auto simp: ascii_def normalize_def)

lemma int_str_ascii: "c \<in> set (int_str i) \<Longrightarrow> of_char c < (128 :: nat)"
  by (auto simp: int_str_def dest: nat_str_digits is_digit_ascii split: if_splits)

lemma py_int_ascii_int_str:
  assumes "\<not> exceeds_limit (max_str_digits py) (length (nat_str (nat \<bar>i\<bar>)))"
  shows "py_int py (ascii (int_str i)) = Some i"
proof -
  have n: "map (normalize py) (ascii (int_str i)) = int_str i"
    by (rule normalize_ascii) (simp add: int_str_ascii)
  have p: "py_int py (ascii (int_str i)) = parse_int (max_str_digits py) (int_str i)"
    by (simp only: py_int_def n)
  have ds: "\<forall>c \<in> set (nat_str k). is_digit c" for k
    by (simp add: nat_str_digits)
  show ?thesis
  proof (cases "i < 0")
    case True
    then have a: "nat \<bar>i\<bar> = nat (- i)" by simp
    from True show ?thesis
      unfolding p
      using parse_int_digits(2) [OF ds nat_str_nonempty, of "max_str_digits py" "nat (- i)"] assms
      by (simp add: int_str_def digits_val_nat_str a)
  next
    case False
    then have a: "nat \<bar>i\<bar> = nat i" by simp
    from False show ?thesis
      unfolding p
      using parse_int_digits(1) [OF ds nat_str_nonempty, of "max_str_digits py" "nat i"] assms
      by (simp add: int_str_def digits_val_nat_str a)
  qed
qed

text \<open>
  What \<open>str\<close> writes, \<open>int\<close> reads back, for every interpreter.
\<close>

lemma py_int_py_str: "py_str py i = Some s \<Longrightarrow> py_int py s = Some i"
  by (auto simp: py_str_def py_int_ascii_int_str split: if_splits)

lemma py_str_nonempty: "py_str py i = Some s \<Longrightarrow> s \<noteq> []"
  by (auto simp: py_str_def ascii_def int_str_def nat_str_nonempty split: if_splits)

lemma py_str_ascii: "py_str py i = Some s \<Longrightarrow> s = ascii (int_str i)"
  by (auto simp: py_str_def split: if_splits)

lemma py_int_empty: "py_int py [] = None"
  by (simp add: py_int_def parse_int_def)

lemma py_int_Some_nonempty: "py_int py s = Some n \<Longrightarrow> s \<noteq> []"
  by (auto simp: py_int_empty)

lemma py_int_ascii:
  "\<forall>c \<in> set s. of_char c < (128 :: nat) \<Longrightarrow> py_int py (ascii s) = parse_int (max_str_digits py) s"
  by (simp add: py_int_def normalize_ascii)

section \<open>Evaluating the example values\<close>

lemma cpython_fields:
  "max_str_digits cpython = 4300"
  "isspace_uni cpython c = (c \<in> set unicode_spaces)"
  by (simp_all add: cpython_def)

lemmas parse_defs = parse_int_def exceeds_limit_def is_body_def is_digit_def py_isspace_def
  digits_val_def digit_value_def

lemma digit_char_4_2: "digit_char 4 = CHR ''4''" "digit_char 2 = CHR ''2''" "digit_char 7 = CHR ''7''"
proof -
  have h: "(52 :: nat) = of_char CHR ''4''" "(50 :: nat) = of_char CHR ''2''"
    "(55 :: nat) = of_char CHR ''7''"
    by simp_all
  have e: "48 + 4 = (52 :: nat)" "48 + 2 = (50 :: nat)" "48 + 7 = (55 :: nat)" by simp_all
  show "digit_char 4 = CHR ''4''" unfolding digit_char_def e h(1) by (rule char_of_char)
  show "digit_char 2 = CHR ''2''" unfolding digit_char_def e h(2) by (rule char_of_char)
  show "digit_char 7 = CHR ''7''" unfolding digit_char_def e h(3) by (rule char_of_char)
qed

lemma todecimal_examples: "todecimal cpython 0x664 = Some 4" "todecimal cpython 0x662 = Some 2"
  by (simp_all add: cpython_def decimal_zeros_def)

lemma normalize_examples:
  "map (normalize cpython) (0xA0 # ascii ''42'') = '' 42''"
  "map (normalize cpython) [0x664, 0x662] = ''42''"
  by (simp_all add: normalize_ascii normalize_def cpython_fields unicode_spaces_def
      todecimal_examples digit_char_4_2)

lemma py_int_examples:
  "py_int cpython (ascii ''42'') = Some 42"
  "py_int cpython (ascii ''abc'') = None"
  "py_int cpython (ascii ''7'') = Some 7"
  "py_int cpython (ascii '' +4_2 '') = Some 42"
  by (simp_all add: py_int_ascii cpython_fields parse_defs)

text \<open>
  A no-break space before the digits and digits of another script are read as
  CPython reads them.
\<close>

lemma py_int_unicode_examples:
  "py_int cpython (0xA0 # ascii ''42'') = Some 42"
  "py_int cpython [0x664, 0x662] = Some 42"
  unfolding py_int_def normalize_examples cpython_fields
  by (simp_all add: parse_defs)

lemma nat_str_42: "nat_str 42 = ''42''"
  by (simp add: nat_str.simps [of 42] nat_str.simps [of 4] digit_char_4_2)

lemma py_str_42: "py_str cpython 42 = Some (ascii ''42'')"
  by (simp add: py_str_def cpython_fields exceeds_limit_def int_str_def nat_str_42)

lemma api1_lookups:
  "api1 ''cs_1'' = Some (checkout ''cs_1'' ''paid'' (Val [''cartID'' \<mapsto> ascii ''42'']))"
  "api1 ''cs_2'' = Some (checkout ''cs_2'' ''unpaid'' (Val [''cartID'' \<mapsto> ascii ''42'']))"
  "api1 ''cs_3'' = Some (checkout ''cs_3'' ''paid'' (Val Map.empty))"
  "api1 ''cs_4'' = Some (checkout ''cs_4'' ''paid'' (Val [''cartID'' \<mapsto> ascii ''abc'']))"
  "api1 ''cs_5'' = Some (checkout ''cs_5'' ''paid'' (Val [''cartID'' \<mapsto> ascii ''7'']))"
  "api1 ''cs_6'' = Some (checkout ''cs_6'' ''paid'' Null)"
  by (simp_all add: api1_def)

lemma checkout_fields:
  "payment_status (checkout i st md) = Some st"
  "metadata (checkout i st md) = md"
  "get_metadata (checkout i st (Val m)) = Some m"
  "get_metadata (checkout i st Null) = None"
  by (simp_all add: checkout_def get_metadata_def)

lemma query_first_fresh:
  "dirty d = Map.empty \<Longrightarrow> \<not> query_fails d \<Longrightarrow>
     query_first uid d = (Inr (rows d uid), d\<lparr>oplog := oplog d @ [Query uid]\<rparr>)"
  by (simp add: query_first_def)

lemma writes_query [simp]: "writes (d\<lparr>oplog := oplog d @ [Query uid]\<rparr>) = writes d"
  by (simp add: writes_def)

lemma db_fresh_eq:
  "dirty d = Map.empty \<Longrightarrow> d\<lparr>rows := rows d ++ dirty d, dirty := Map.empty, oplog := l\<rparr> = d\<lparr>oplog := l\<rparr>"
  "dirty d = Map.empty \<Longrightarrow> d\<lparr>dirty := Map.empty, oplog := l\<rparr> = d\<lparr>oplog := l\<rparr>"
  by (cases d; simp)+

lemma store_granted_row: "rows store_granted 42 = Some (user42\<lparr>has_access := True\<rparr>)"
  "dirty store_granted = Map.empty" "\<not> commit_fails store_granted" "oplog store_granted = []"
  "\<not> query_fails store_granted"
  by (simp_all add: store_granted_def)

lemma store0_row: "rows store0 42 = Some user42"
  "dirty store0 = Map.empty" "\<not> commit_fails store0" "oplog store0 = []" "\<not> has_access user42"
  "\<not> query_fails store0" "rows store0 7 = None"
  by (simp_all add: store0_def user42_def)

lemma store_down_row: "query_fails store_down" "oplog store_down = []"
  by (simp_all add: store_down_def)

lemma cs_1_key: "[''cartID'' \<mapsto> ascii ''42''] ''cartID'' = Some (ascii ''42'')"
  by simp

lemma ascii_42_nonempty: "ascii ''42'' \<noteq> []" "ascii ''7'' \<noteq> []" "ascii ''abc'' \<noteq> []"
  by (simp_all add: ascii_def)

lemma invoice_fields:
  "get_metadata invoice_null = None"
  "get_metadata invoice42 = Some [''user_id'' \<mapsto> ascii ''42'']"
  "get_metadata invoice_cart = Some [''cartID'' \<mapsto> ascii ''42'']"
  "metadata invoice_cart = Val [''cartID'' \<mapsto> ascii ''42'']"
  "subscription invoice_cart = Val ''sub_1''"
  "subscription invoice42 = Val ''sub_1''"
  by (simp_all add: invoice_null_def invoice42_def invoice_cart_def get_metadata_def)

lemma fulfill_cs_1:
  "fullfillment_fulfill_service cpython api1 ''cs_1'' store_granted
     = (True, store_granted\<lparr>oplog := [Query 42]\<rparr>)"
  "webhook_handler_fulfill_service cpython api1 ''cs_1'' store_granted
     = (Inr True,
        store_granted\<lparr>oplog := [Query 42, SetAttr 42 ''has_platform_access'' True, Commit]\<rparr>)"
  "webhook_handler_fulfill_service cpython api1 ''cs_1'' store0
     = (Inr True, store0\<lparr>oplog := [Query 42, SetAttr 42 ''has_platform_access'' True, Commit]\<rparr>)"
  "fullfillment_fulfill_service cpython api1 ''cs_1'' store0
     = (True, store0\<lparr>rows := [42 \<mapsto> user42\<lparr>has_access := True\<rparr>],
                      oplog := [Query 42, SetAttr 42 ''has_access'' True, Commit]\<rparr>)"
  by (simp_all add: fullfillment_fulfill_service_def webhook_handler_fulfill_service_def
      api1_lookups checkout_fields py_int_examples ascii_42_nonempty query_first_fresh
      store_granted_row store0_row set_attr_def setattr_user_def commit_def db_fresh_eq)
    (simp_all add: store0_def)

section \<open>The Fulfillment Resolver\<close>

text \<open>
  Claim C3. For every checkout session whose payment status is not \<open>"paid"\<close>, the
  fulfillment operation returns \<open>False\<close> (not fulfilled), raises nothing, and leaves
  the store exactly as it was: no row, no pending change and no logged operation
  differs. This holds for \<open>fulfill_service\<close> of \<open>fullfillment.py\<close> and of
  \<open>webhook-handler.py\<close>, and for \<open>fulfill_order\<close> of \<open>main.py\<close>, which returns
  nothing.
\<close>

theorem not_paid_no_mutation:
  assumes "api session_id = Some session"
    and "payment_status session \<noteq> Some ''paid''"
  shows "fullfillment_fulfill_service py api session_id d = (False, d)
       \<and> webhook_handler_fulfill_service py api session_id d = (Inr False, d)
       \<and> fulfill_order py api session_id d = (None, d)"
  using assms
  by (simp add: fullfillment_fulfill_service_def webhook_handler_fulfill_service_def
      fulfill_order_def)

theorem not_paid_no_mutation_witness:
  "api1 ''cs_2'' = Some (checkout ''cs_2'' ''unpaid'' (Val [''cartID'' \<mapsto> ascii ''42'']))
   \<and> payment_status (checkout ''cs_2'' ''unpaid'' (Val [''cartID'' \<mapsto> ascii ''42''])) \<noteq> Some ''paid''
   \<and> fullfillment_fulfill_service cpython api1 ''cs_2'' store0 = (False, store0)
   \<and> webhook_handler_fulfill_service cpython api1 ''cs_2'' store0 = (Inr False, store0)
   \<and> fulfill_order cpython api1 ''cs_2'' store0 = (None, store0)"
  using not_paid_no_mutation [where api = api1 and session_id = "''cs_2''" and d = store0
      and py = cpython
      and session = "checkout ''cs_2'' ''unpaid'' (Val [''cartID'' \<mapsto> ascii ''42''])"]
  by (simp add: api1_lookups checkout_fields)

text \<open>
  A paid session whose metadata is a dictionary without a \<open>cartID\<close>, or with a
  \<open>cartID\<close> that \<open>int()\<close> rejects, or with one that is the key of no row: when the
  lookup does not raise, both \<open>fulfill_service\<close> functions return \<open>False\<close> and
  write nothing.
\<close>

lemma unresolved_key_not_fulfilled:
  assumes "api session_id = Some session"
    and "payment_status session = Some ''paid''"
    and "get_metadata session = Some m"
    and "dirty d = Map.empty"
    and "\<not> query_fails d"
    and "m ''cartID'' = None
       \<or> (\<exists>s. m ''cartID'' = Some s \<and> py_int py s = None)
       \<or> (\<exists>s n. m ''cartID'' = Some s \<and> py_int py s = Some n \<and> rows d n = None)"
  shows "\<exists>d'. webhook_handler_fulfill_service py api session_id d = (Inr False, d')
            \<and> fst (fullfillment_fulfill_service py api session_id d) = False
            \<and> rows d' = rows d \<and> dirty d' = dirty d \<and> writes d' = writes d"
  using assms
  by (auto simp: fullfillment_fulfill_service_def webhook_handler_fulfill_service_def
      get_metadata_def query_first_fresh py_int_empty split: field.splits)

text \<open>
  Claim C7. A paid session without a usable \<open>cartID\<close> should give "not fulfilled"
  with no exception reaching the caller and no store write. Evaluated for session
  \<open>cs_6\<close>, which is paid and whose metadata is \<open>null\<close>: \<open>fulfill_service\<close> of
  \<open>webhook-handler.py\<close> raises \<open>AttributeError\<close> to its caller (line 104 is
  outside every \<open>try\<close>), while \<open>fulfill_service\<close> of \<open>fullfillment.py\<close> returns
  \<open>False\<close>. Evaluated for session \<open>cs_5\<close>, whose \<open>cartID\<close> names no user, on a
  store whose lookup raises: the exception of the lookup (line 120) reaches the caller
  of the first function, and the second returns \<open>False\<close>. Neither writes.
\<close>

theorem webhook_handler_null_metadata_raises:
  "webhook_handler_fulfill_service cpython api1 ''cs_6'' store0 = (Inl AttributeError, store0)
   \<and> fullfillment_fulfill_service cpython api1 ''cs_6'' store0 = (False, store0)
   \<and> webhook_handler_fulfill_service cpython api1 ''cs_5'' store_down
        = (Inl SQLAlchemyError, store_down\<lparr>oplog := [Query 7]\<rparr>)
   \<and> fullfillment_fulfill_service cpython api1 ''cs_5'' store_down
        = (False, store_down\<lparr>oplog := [Query 7]\<rparr>)"
  by (simp add: webhook_handler_fulfill_service_def fullfillment_fulfill_service_def
      api1_lookups checkout_fields ascii_42_nonempty py_int_examples query_first_def
      store_down_row)

text \<open>
  Claim C2, as amended. For every paid checkout session whose \<open>cartID\<close> parses to
  the key of a row whose \<open>has_access\<close> is already true: \<open>fulfill_service\<close> of
  \<open>fullfillment.py\<close> returns \<open>True\<close>, the value it also returns for a first
  fulfillment, and performs nothing but the lookup (no assignment, no commit);
  \<open>fulfill_service\<close> of \<open>webhook-handler.py\<close> assigns and commits again on every
  call, and returns \<open>True\<close> unless that commit raises. No function has a result
  of its own for a session that was fulfilled before.
\<close>

theorem replay_returns_true:
  assumes "api session_id = Some session"
    and "payment_status session = Some ''paid''"
    and "metadata session = Val m"
    and "m ''cartID'' = Some s"
    and "py_int py s = Some n"
    and "dirty d = Map.empty"
    and "\<not> query_fails d"
    and "rows d n = Some u"
    and "has_access u"
  shows "fullfillment_fulfill_service py api session_id d
           = (True, d\<lparr>oplog := oplog d @ [Query n]\<rparr>)
       \<and> webhook_handler_fulfill_service py api session_id d =
           (Inr (\<not> commit_fails d),
            d\<lparr>oplog := oplog d @ [Query n, SetAttr n ''has_platform_access'' True, Commit]
                         @ (if commit_fails d then [Rollback] else [])\<rparr>)"
  using assms py_int_Some_nonempty [of py s n]
  by (simp add: fullfillment_fulfill_service_def webhook_handler_fulfill_service_def
      get_metadata_def query_first_fresh set_attr_def commit_def rollback_def db_fresh_eq)

theorem replay_returns_true_witness:
  "fullfillment_fulfill_service cpython api1 ''cs_1'' store_granted
     = (True, store_granted\<lparr>oplog := [Query 42]\<rparr>)
   \<and> webhook_handler_fulfill_service cpython api1 ''cs_1'' store_granted
     = (Inr True,
        store_granted\<lparr>oplog := [Query 42, SetAttr 42 ''has_platform_access'' True, Commit]\<rparr>)"
  using replay_returns_true [where api = api1 and session_id = "''cs_1''" and d = store_granted
      and n = 42 and py = cpython, OF api1_lookups(1) checkout_fields(1) checkout_fields(2)
      cs_1_key py_int_examples(1) store_granted_row(2) store_granted_row(5) store_granted_row(1)]
  by (simp add: store_granted_row)

text \<open>
  The claim as it was stated fails in the scenario of the specification: replayed on
  the store where user 42 already has access, both functions return \<open>True\<close>, as
  they do on the store where user 42 has none, and the function of
  \<open>webhook-handler.py\<close> performs an assignment and a commit.
\<close>

theorem replay_not_distinct_counterexample:
  "fst (fullfillment_fulfill_service cpython api1 ''cs_1'' store_granted) = True
   \<and> fst (fullfillment_fulfill_service cpython api1 ''cs_1'' store0) = True
   \<and> fst (webhook_handler_fulfill_service cpython api1 ''cs_1'' store_granted) = Inr True
   \<and> fst (webhook_handler_fulfill_service cpython api1 ''cs_1'' store0) = Inr True
   \<and> writes (snd (webhook_handler_fulfill_service cpython api1 ''cs_1'' store_granted))
       = [SetAttr 42 ''has_platform_access'' True, Commit]
   \<and> writes store_granted = []"
  by (simp add: fulfill_cs_1 writes_def store_granted_row)

subsection \<open>Which rows fulfillment changes\<close>

text \<open>
  \<open>fulfill_service\<close> of \<open>fullfillment.py\<close> assigns the column \<open>has_access\<close>: after
  one call the row of the user holds the flag, and a second call changes nothing.
\<close>

lemma fullfillment_grants:
  assumes "api session_id = Some session"
    and "payment_status session = Some ''paid''"
    and "metadata session = Val m"
    and "m ''cartID'' = Some s"
    and "py_int py s = Some n"
    and "dirty d = Map.empty"
    and "\<not> query_fails d"
    and "\<not> commit_fails d"
    and "rows d n = Some u"
  shows "fst (fullfillment_fulfill_service py api session_id d) = True
       \<and> rows (snd (fullfillment_fulfill_service py api session_id d))
           = (rows d)(n \<mapsto> u\<lparr>has_access := True\<rparr>)
       \<and> dirty (snd (fullfillment_fulfill_service py api session_id d)) = Map.empty
       \<and> query_fails (snd (fullfillment_fulfill_service py api session_id d)) = query_fails d
       \<and> commit_fails (snd (fullfillment_fulfill_service py api session_id d)) = commit_fails d"
  using assms py_int_Some_nonempty [of py s n]
  by (auto simp: fullfillment_fulfill_service_def query_first_fresh set_attr_def commit_def
      setattr_user_def map_add_def fun_eq_iff)

lemma fullfillment_idempotent:
  assumes "api session_id = Some session"
    and "payment_status session = Some ''paid''"
    and "metadata session = Val m"
    and "m ''cartID'' = Some s"
    and "py_int py s = Some n"
    and "dirty d = Map.empty"
    and "\<not> query_fails d"
    and "\<not> commit_fails d"
    and "rows d n = Some u"
  shows "rows (snd (fullfillment_fulfill_service py api session_id
                (snd (fullfillment_fulfill_service py api session_id d))))
         = rows (snd (fullfillment_fulfill_service py api session_id d))
       \<and> map_option has_access (rows (snd (fullfillment_fulfill_service py api session_id d)) n)
           = Some True
       \<and> (\<forall>k. k \<noteq> n \<longrightarrow> rows (snd (fullfillment_fulfill_service py api session_id d)) k = rows d k)"
proof -
  let ?d1 = "snd (fullfillment_fulfill_service py api session_id d)"
  note g = fullfillment_grants [where api = api and session_id = session_id and d = d
      and py = py, OF assms]
  have r1: "rows ?d1 n = Some (u\<lparr>has_access := True\<rparr>)" using g by simp
  have d1: "dirty ?d1 = Map.empty" "\<not> query_fails ?d1" "\<not> commit_fails ?d1"
    using g assms(7,8) by simp_all
  note g2 = fullfillment_grants [where api = api and session_id = session_id and d = ?d1
      and py = py, OF assms(1-5) d1 r1]
  have "rows (snd (fullfillment_fulfill_service py api session_id ?d1)) = rows ?d1"
    using g2 r1 by (auto simp: fun_eq_iff)
  then show ?thesis using g by simp
qed

text \<open>
  \<open>fulfill_service\<close> and the invoice handlers of \<open>webhook-handler.py\<close> and
  \<open>fulfill_order\<close> of \<open>main.py\<close> assign \<open>has_platform_access\<close>, which is no column
  of \<open>models.py\<close>: on every input the persisted rows after the call are the rows
  before it.
\<close>

lemma webhook_handler_fulfill_rows:
  "dirty d = Map.empty \<Longrightarrow>
     rows (snd (webhook_handler_fulfill_service py api session_id d)) = rows d
   \<and> dirty (snd (webhook_handler_fulfill_service py api session_id d)) = Map.empty"
  by (auto simp: webhook_handler_fulfill_service_def query_first_def set_attr_def commit_def
      rollback_def split: option.splits)

lemma fulfill_order_rows: "rows (snd (fulfill_order py api session_id d)) = rows d"
  by (auto simp: fulfill_order_def query_first_def set_attr_def commit_def add_def
      rollback_def close_def SessionLocal_def mark_session_as_fulfilled_def
      is_session_already_fulfilled_def split: option.splits)

lemma handle_invoice_rows:
  "dirty d = Map.empty \<Longrightarrow>
     rows (snd (handle_invoice_payment_succeeded py invoice d)) = rows d
   \<and> rows (snd (handle_invoice_payment_failed py invoice d)) = rows d"
  by (auto simp: handle_invoice_payment_succeeded_def handle_invoice_payment_failed_def
      query_first_def set_attr_def commit_def rollback_def split: option.splits sum.splits)

text \<open>
  Claim C1. For a paid session whose \<open>cartID\<close> parses to the key of an existing
  user, fulfilling twice should leave the store as fulfilling once does, with the
  user's access flag true. Evaluated in the scenario of the specification (session
  \<open>cs_1\<close>, \<open>cartID = "42"\<close>, user 42 without access): \<open>fulfill_service\<close> of
  \<open>webhook-handler.py\<close> returns \<open>True\<close>, yet after one call and after two calls
  the \<open>has_access\<close> column of user 42 is still false, and so it is after
  \<open>fulfill_order\<close> of \<open>main.py\<close>; after \<open>fulfill_service\<close> of \<open>fullfillment.py\<close>
  it is true.
\<close>

theorem webhook_handler_flag_stays_false:
  "fst (webhook_handler_fulfill_service cpython api1 ''cs_1'' store0) = Inr True
   \<and> map_option has_access
        (rows (snd (webhook_handler_fulfill_service cpython api1 ''cs_1'' store0)) 42) = Some False
   \<and> map_option has_access
        (rows (snd (webhook_handler_fulfill_service cpython api1 ''cs_1''
                      (snd (webhook_handler_fulfill_service cpython api1 ''cs_1'' store0)))) 42)
        = Some False
   \<and> map_option has_access (rows (snd (fulfill_order cpython api1 ''cs_1'' store0)) 42)
        = Some False
   \<and> map_option has_access
        (rows (snd (fulfill_order cpython api1 ''cs_1''
                      (snd (fulfill_order cpython api1 ''cs_1'' store0)))) 42) = Some False
   \<and> map_option has_access
        (rows (snd (fullfillment_fulfill_service cpython api1 ''cs_1'' store0)) 42) = Some True"
proof -
  have d0: "dirty store0 = Map.empty" by (rule store0_row(2))
  note w1 = webhook_handler_fulfill_rows [OF d0, of cpython api1 "''cs_1''"]
  have w2: "rows (snd (webhook_handler_fulfill_service cpython api1 ''cs_1''
                      (snd (webhook_handler_fulfill_service cpython api1 ''cs_1'' store0))))
            = rows store0"
    using webhook_handler_fulfill_rows
      [of "snd (webhook_handler_fulfill_service cpython api1 ''cs_1'' store0)" cpython api1 "''cs_1''"]
      w1 by simp
  have r: "map_option has_access (rows store0 42) = Some False"
    by (simp add: store0_row)
  show ?thesis
    using w1 w2 r by (simp add: fulfill_order_rows fulfill_cs_1)
qed

section \<open>The Event Verifier and the Webhook Dispatcher\<close>

text \<open>
  Claim C4. A request whose body does not parse or whose signature does not verify
  should be answered with HTTP 400, without store access and without a handler.
  Evaluated for a verifier that raises \<open>ValueError\<close> (a body that does not parse):
  the endpoint of \<open>webhook-handler.py\<close> catches only
  \<open>SignatureVerificationError\<close>, so the \<open>ValueError\<close> leaves the endpoint
  uncaught instead of becoming an \<open>HTTPException\<close> with status 400. The store is
  untouched.
\<close>

theorem webhook_handler_invalid_payload_uncaught:
  "webhook_handler_stripe_webhook py (\<lambda>r. Inl ValueError) api req d = (Uncaught ValueError, d)"
  by (simp add: webhook_handler_stripe_webhook_def)

text \<open>
  The endpoint of \<open>main.py\<close> answers 400 and queues no task for both exceptions; the
  endpoint of \<open>webhook-handler.py\<close> answers 400 for a signature that does not
  verify and leaves the store as it was.
\<close>

lemma unverified_rejected:
  assumes "construct_event req = Inl e"
    and "e = ValueError \<or> e = SignatureVerificationError"
  shows "\<exists>detail. main_stripe_webhook construct_event req = (HTTPException 400 detail, [])"
    and "e = SignatureVerificationError \<Longrightarrow>
         webhook_handler_stripe_webhook py construct_event api req d
           = (HTTPException 400 ''Invalid webhook signature'', d)"
  using assms by (auto simp: main_stripe_webhook_def webhook_handler_stripe_webhook_def)

text \<open>
  What the two endpoints answer to a verified event. \<open>main.py\<close> always answers
  with the success acknowledgment. \<open>webhook-handler.py\<close> answers with it when the
  handler returns, except for a checkout event whose \<open>fulfill_service\<close> returned
  \<open>False\<close> (HTTP 500); when the handler raises, the exception leaves the endpoint.
\<close>

lemma dispatcher_acknowledges:
  assumes "construct_event req = Inr ev"
  shows "fst (main_stripe_webhook construct_event req) = success_ack
       \<and> fst (webhook_handler_stripe_webhook py construct_event api req d) =
           (if event_type ev \<in> set checkout_events then
              (case fst (webhook_handler_fulfill_service py api (obj_id (data_object ev)) d) of
                 Inl e \<Rightarrow> Uncaught e
               | Inr success \<Rightarrow>
                   if success then success_ack
                   else HTTPException 500 ''Failed to fulfill the service'')
            else if event_type ev = ''invoice.payment_succeeded'' then
              (case fst (handle_invoice_payment_succeeded py (data_object ev) d) of
                 Some e \<Rightarrow> Uncaught e | None \<Rightarrow> success_ack)
            else if event_type ev = ''invoice.payment_failed'' then
              (case fst (handle_invoice_payment_failed py (data_object ev) d) of
                 Some e \<Rightarrow> Uncaught e | None \<Rightarrow> success_ack)
            else success_ack)"
  using assms
  by (simp add: main_stripe_webhook_def webhook_handler_stripe_webhook_def
      split: prod.splits sum.splits option.splits)

text \<open>
  Claim C6. Every verified event should be answered with the success
  acknowledgment whether or not the handler succeeded, the checkout path of one
  variant apart. Evaluated on the endpoint of \<open>webhook-handler.py\<close> for an
  \<open>invoice.payment_failed\<close> event whose invoice has \<open>null\<close> metadata, and for an
  \<open>invoice.payment_succeeded\<close> event on a store whose lookup raises: the handler
  raises (lines 208 and 155 are outside every \<open>try\<close>, and so are the calls at lines
  62 and 66), and the exception leaves the endpoint instead of the acknowledgment,
  on a path that is not the checkout path. The endpoint of \<open>main.py\<close> answers the
  same event with the acknowledgment.
\<close>

theorem webhook_handler_handler_exception_escapes:
  "webhook_handler_stripe_webhook cpython
       (\<lambda>r. Inr (event_of ''invoice.payment_failed'' invoice_null)) api1 request1 store0
     = (Uncaught AttributeError, store0)
   \<and> webhook_handler_stripe_webhook cpython
       (\<lambda>r. Inr (event_of ''invoice.payment_succeeded'' invoice42)) api1 request1 store_down
     = (Uncaught SQLAlchemyError, store_down\<lparr>oplog := [Query 42]\<rparr>)
   \<and> fst (main_stripe_webhook
       (\<lambda>r. Inr (event_of ''invoice.payment_failed'' invoice_null)) request1) = success_ack"
  by (simp add: webhook_handler_stripe_webhook_def main_stripe_webhook_def event_of_def
      checkout_events_def handle_invoice_payment_failed_def handle_invoice_payment_succeeded_def
      extract_user_id_from_invoice_def invoice_fields ascii_42_nonempty py_int_examples
      query_first_def store_down_row)

section \<open>The Subscription Lifecycle Handler\<close>

text \<open>
  Claim C5. An invoice-payment-failed event that resolves to an existing user with
  access should set that user's access flag to false. Evaluated for an invoice whose
  metadata names user 42, who has access: \<open>handle_invoice_payment_failed\<close> of
  \<open>webhook-handler.py\<close> looks the user up, assigns \<open>False\<close> to
  \<open>has_platform_access\<close> (line 190) and commits, and the \<open>has_access\<close> column of
  user 42 is still true; \<open>handle_failed_payment\<close> of \<open>main.py\<close> leaves the store as
  it was.
\<close>

theorem invoice_failed_flag_stays_true:
  "handle_invoice_payment_failed cpython invoice42 store_granted
     = (None, store_granted\<lparr>oplog :=
                [Query 42, SetAttr 42 ''has_platform_access'' False, Commit]\<rparr>)
   \<and> map_option has_access
        (rows (snd (handle_invoice_payment_failed cpython invoice42 store_granted)) 42) = Some True
   \<and> handle_failed_payment invoice42 store_granted = (None, store_granted)"
proof -
  have h: "handle_invoice_payment_failed cpython invoice42 store_granted
     = (None, store_granted\<lparr>oplog :=
                [Query 42, SetAttr 42 ''has_platform_access'' False, Commit]\<rparr>)"
    by (simp add: handle_invoice_payment_failed_def extract_user_id_from_invoice_def
        invoice_fields ascii_42_nonempty py_int_examples query_first_fresh store_granted_row
        set_attr_def commit_def db_fresh_eq)
  show ?thesis
    by (simp add: h store_granted_row handle_failed_payment_def invoice_fields)
qed



lemma extract_reads_user_id_only:
  "extract_user_id_from_invoice py
     (invoice\<lparr>metadata := Val (m(''cartID'' := c)), subscription := sub\<rparr>)
   = extract_user_id_from_invoice py (invoice\<lparr>metadata := Val m\<rparr>)"
  by (simp add: extract_user_id_from_invoice_def get_metadata_def split: option.splits field.splits)

section \<open>The Payment Link Issuer\<close>

lemma resolver_queries:
  assumes "api session_id = Some session"
    and "payment_status session = Some ''paid''"
    and "metadata session = Val m"
    and "m ''cartID'' = Some s"
    and "py_int py s = Some n"
  shows "(\<exists>rest. oplog (snd (webhook_handler_fulfill_service py api session_id d))
                   = oplog d @ Query n # rest)
       \<and> (\<exists>rest. oplog (snd (fullfillment_fulfill_service py api session_id d))
                   = oplog d @ Query n # rest)
       \<and> (\<exists>rest. oplog (snd (fulfill_order py api session_id d)) = oplog d @ Query n # rest)"
  using assms py_int_Some_nonempty [of py s n]
  by (auto simp: webhook_handler_fulfill_service_def fullfillment_fulfill_service_def
      fulfill_order_def get_metadata_def query_first_def set_attr_def commit_def add_def
      rollback_def close_def SessionLocal_def mark_session_as_fulfilled_def
      is_session_already_fulfilled_def split: option.splits)

lemma create_payment_link_accepted:
  assumes "dirty d = Map.empty"
    and "\<not> query_fails d"
    and "rows d (user_id req) = Some u"
    and "map_of PRICE_IDS (plan req) = Some price_id"
    and "py_str py (user_id req) = Some cart"
  shows "create_payment_link py req pr d =
           (case answer pr (link_params req price_id cart) of
              Inr url \<Rightarrow> JSONResponse [(''payment_link_url'', url)]
            | Inl e \<Rightarrow> HTTPException 500 (''Failed to create payment link: '' @ e),
            pr\<lparr>calls := calls pr @ [link_params req price_id cart]\<rparr>,
            d\<lparr>oplog := oplog d @ [Query (user_id req)]\<rparr>)"
  using assms
  by (simp add: create_payment_link_def query_first_fresh PaymentLink_create_def
      split: sum.splits)

text \<open>
  Claim C8. For every request that the issuer accepts (the user exists, the plan is
  one of \<open>PRICE_IDS\<close>, \<open>str(user_id)\<close> does not raise), the issuer calls the
  provider exactly once, with the metadata \<open>cartID\<close> set to the decimal text of
  \<open>user_id\<close>, and answers with what the provider returned for these arguments; and
  for every paid session that carries the metadata of that call, reading \<open>cartID\<close>
  and parsing it with \<open>int\<close> gives the same \<open>user_id\<close> back, which is the key that
  each of the three fulfillment functions looks up first.
\<close>

theorem cart_id_round_trip:
  assumes "dirty d = Map.empty"
    and "\<not> query_fails d"
    and "rows d (user_id req) = Some u"
    and "map_of PRICE_IDS (plan req) = Some price_id"
    and "py_str py (user_id req) = Some cart"
    and "api session_id = Some session"
    and "payment_status session = Some ''paid''"
    and "metadata session
           = Val (map_of (link_metadata (last (calls (fst (snd (create_payment_link py req pr d)))))))"
  shows "calls (fst (snd (create_payment_link py req pr d)))
           = calls pr @ [link_params req price_id cart]
       \<and> link_metadata (link_params req price_id cart) = [(''cartID'', ascii (int_str (user_id req)))]
       \<and> fst (create_payment_link py req pr d) =
           (case answer pr (link_params req price_id cart) of
              Inr url \<Rightarrow> JSONResponse [(''payment_link_url'', url)]
            | Inl e \<Rightarrow> HTTPException 500 (''Failed to create payment link: '' @ e))
       \<and> Option.bind (map_of (link_metadata (last (calls (fst (snd
             (create_payment_link py req pr d)))))) ''cartID'') (py_int py) = Some (user_id req)
       \<and> (\<exists>rest. oplog (snd (webhook_handler_fulfill_service py api session_id d2))
                    = oplog d2 @ Query (user_id req) # rest)
       \<and> (\<exists>rest. oplog (snd (fullfillment_fulfill_service py api session_id d2))
                    = oplog d2 @ Query (user_id req) # rest)
       \<and> (\<exists>rest. oplog (snd (fulfill_order py api session_id d2))
                    = oplog d2 @ Query (user_id req) # rest)"
proof -
  note c = create_payment_link_accepted [OF assms(1-5), of pr]
  have calls: "calls (fst (snd (create_payment_link py req pr d)))
           = calls pr @ [link_params req price_id cart]"
    by (simp add: c)
  have md: "link_metadata (link_params req price_id cart) = [(''cartID'', cart)]"
    by (simp add: link_params_def)
  have cart: "cart = ascii (int_str (user_id req))"
    using assms(5) by (rule py_str_ascii)
  have m: "metadata session = Val [''cartID'' \<mapsto> cart]"
    using assms(8) by (simp add: calls md)
  have key: "[''cartID'' \<mapsto> cart] ''cartID'' = Some cart" by simp
  note q = resolver_queries [where api = api and session_id = session_id and d = d2
      and py = py, OF assms(6,7) m key py_int_py_str [OF assms(5)]]
  have resp: "fst (create_payment_link py req pr d) =
           (case answer pr (link_params req price_id cart) of
              Inr url \<Rightarrow> JSONResponse [(''payment_link_url'', url)]
            | Inl e \<Rightarrow> HTTPException 500 (''Failed to create payment link: '' @ e))"
    by (simp add: c)
  have rt: "Option.bind (map_of (link_metadata (last (calls (fst (snd
             (create_payment_link py req pr d)))))) ''cartID'') (py_int py) = Some (user_id req)"
    by (simp add: calls md py_int_py_str [OF assms(5)])
  show ?thesis
    using calls md cart resp rt q by simp
qed

theorem cart_id_round_trip_witness:
  "calls (fst (snd (create_payment_link cpython \<lparr>user_id = 42, plan = ''gold''\<rparr> provider1 store0)))
     = [link_params \<lparr>user_id = 42, plan = ''gold''\<rparr> ''price_1QhzfAIZhbjcBaqMGoldXXX'' (ascii ''42'')]
   \<and> link_metadata (link_params \<lparr>user_id = 42, plan = ''gold''\<rparr> ''price_1QhzfAIZhbjcBaqMGoldXXX''
        (ascii ''42'')) = [(''cartID'', ascii ''42'')]
   \<and> fst (create_payment_link cpython \<lparr>user_id = 42, plan = ''gold''\<rparr> provider1 store0)
     = JSONResponse [(''payment_link_url'', ''https://buy.stripe.com/test_1'')]
   \<and> (\<exists>rest. oplog (snd (webhook_handler_fulfill_service cpython api1 ''cs_1'' store0))
                = Query 42 # rest)
   \<and> (\<exists>rest. oplog (snd (fullfillment_fulfill_service cpython api1 ''cs_1'' store0))
                = Query 42 # rest)
   \<and> (\<exists>rest. oplog (snd (fulfill_order cpython api1 ''cs_1'' store0)) = Query 42 # rest)"
proof -
  let ?req = "\<lparr>user_id = 42, plan = ''gold''\<rparr>"
  have pl: "map_of PRICE_IDS (plan ?req) = Some ''price_1QhzfAIZhbjcBaqMGoldXXX''"
    by (simp add: PRICE_IDS_def)
  have u: "rows store0 (user_id ?req) = Some user42"
    by (simp add: store0_row)
  have st: "py_str cpython (user_id ?req) = Some (ascii ''42'')"
    by (simp add: py_str_42)
  note c = create_payment_link_accepted [OF store0_row(2) store0_row(6) u pl st, of provider1]
  have is42: "int_str 42 = ''42''"
    by (simp add: int_str_def nat_str_42)
  have md: "metadata (checkout ''cs_1'' ''paid'' (Val [''cartID'' \<mapsto> ascii ''42'']))
              = Val (map_of (link_metadata (last (calls (fst (snd
                  (create_payment_link cpython ?req provider1 store0)))))))"
    by (simp add: c checkout_fields link_params_def fun_eq_iff)
  show ?thesis
    using cart_id_round_trip [where api = api1 and session_id = "''cs_1''" and d = store0
        and ?d2.0 = store0 and pr = provider1 and py = cpython and req = ?req,
        OF store0_row(2) store0_row(6) u pl st api1_lookups(1) checkout_fields(1) md]
    by (simp add: store0_row provider1_def is42)
qed

text \<open>
  Claim C9. A request that names a user who does not exist is answered with HTTP
  404; a request that names an existing user and a plan outside
  \<open>bronze\<close>, \<open>silver\<close>, \<open>gold\<close> is answered with HTTP 400 and the detail
  \<open>Invalid subscription plan\<close>. In both cases the provider is not called and the
  store is only queried.
\<close>

theorem payment_link_rejections:
  assumes "dirty d = Map.empty"
    and "\<not> query_fails d"
  shows "(rows d (user_id req) = None \<longrightarrow>
            create_payment_link py req pr d
              = (HTTPException 404 ''User not found'', pr,
                 d\<lparr>oplog := oplog d @ [Query (user_id req)]\<rparr>))
       \<and> (rows d (user_id req) \<noteq> None \<and> plan req \<notin> {''bronze'', ''silver'', ''gold''} \<longrightarrow>
            create_payment_link py req pr d
              = (HTTPException 400 ''Invalid subscription plan'', pr,
                 d\<lparr>oplog := oplog d @ [Query (user_id req)]\<rparr>))"
  using assms
  by (auto simp: create_payment_link_def query_first_fresh PRICE_IDS_def)

theorem payment_link_rejections_witness:
  "create_payment_link cpython \<lparr>user_id = 7, plan = ''gold''\<rparr> provider1 store0
     = (HTTPException 404 ''User not found'', provider1, store0\<lparr>oplog := [Query 7]\<rparr>)
   \<and> create_payment_link cpython \<lparr>user_id = 42, plan = ''platinum''\<rparr> provider1 store0
     = (HTTPException 400 ''Invalid subscription plan'', provider1, store0\<lparr>oplog := [Query 42]\<rparr>)"
  using payment_link_rejections [OF store0_row(2) store0_row(6),
      of "\<lparr>user_id = 7, plan = ''gold''\<rparr>" cpython provider1]
    payment_link_rejections [OF store0_row(2) store0_row(6),
      of "\<lparr>user_id = 42, plan = ''platinum''\<rparr>" cpython provider1]
  by (simp add: store0_row)

end
